theory Spec2Isabelle
  imports Complex_Main
begin

section \<open>The PanBinaural widget of src/lib/interfaces/panbinaural.js\<close>

text \<open>
  The widget keeps an ordered collection of source points around a listener, one circle
  marker and one text label per point, and emits distance and angle of the points.

  JavaScript numbers are idealised as real numbers: the geometric statements below are
  exact where the program computes them up to rounding. \<open>Math.sqrt\<close>, \<open>Math.cos\<close>
  and \<open>Math.sin\<close> are \<open>sqrt\<close>, \<open>cos\<close> and \<open>sin\<close>; \<open>Math.atan2\<close> is \<open>atan2\<close>
  below. A property read or written on \<open>undefined\<close> raises a \<open>TypeError\<close>; the
  state in which it was raised is kept, since an exception rolls nothing back.
\<close>

subsection \<open>Math.atan2\<close>

text \<open>
  The two-argument arctangent of the language: the angle in \<open>(-pi, pi]\<close> of the vector
  \<open>(x, y)\<close>, and \<open>0\<close> for the zero vector.
\<close>

definition atan2 :: "real \<Rightarrow> real \<Rightarrow> real" where
  "atan2 y x =
     (if 0 < x then arctan (y / x)
      else if x < 0 then (if 0 \<le> y then arctan (y / x) + pi else arctan (y / x) - pi)
      else if 0 < y then pi / 2
      else if y < 0 then - (pi / 2)
      else 0)"

subsection \<open>Data\<close>

text \<open>class Point: the fields \<open>x\<close> and \<open>y\<close> are \<open>pt_x\<close> and \<open>pt_y\<close>.\<close>

record point =
  pt_x :: real
  pt_y :: real
  label :: string
  colorIndex :: int

text \<open>
  The SVG primitives, with the attributes the widget sets on them. \<open>c_id\<close> and \<open>t_id\<close>
  are the identities of the element objects; \<open>fill = None\<close> is the attribute value
  \<open>undefined\<close> of a palette lookup out of range.
\<close>

record circle_el =
  c_id :: nat
  cx :: real
  cy :: real
  c_r :: real
  fill_opacity :: string
  fill :: "string option"
  stroke :: string

record text_el =
  t_id :: nat
  t_x :: real
  t_y :: real
  t_fill :: string
  text_anchor :: string
  textContent :: string

text \<open>The data handed to \<open>emit('change', ...)\<close>.\<close>

datatype payload =
    AllPoints (angles: "real list") (distances: "real list")
  | ActiveOnly (pointIndex: nat) (angle: real) (distance: real)
  | Undefined

text \<open>
  The widget object, with the fields the constructor and \<open>buildInterface\<close> set.

  Modelled from the spec: the host widget base (\<open>../core/interface\<close>) and the factory of
  drawing primitives (\<open>../util/svg\<close>) are not part of this file. Of the host, the last six
  fields keep what the widget reads and writes: the pointer state (\<open>mouse.x\<close>,
  \<open>mouse.y\<close>, \<open>clicked\<close>), the child nodes of the render target \<open>element\<close> by identity
  (\<open>appendChild\<close> adds one at the end, \<open>remove\<close> takes it out), the identity the next
  \<open>svg.create\<close> gives to a new primitive, and the sequence of data handed to the sink of
  the change event, in the order of the calls of \<open>emit\<close>.
\<close>

record widget =
  activePoint :: "nat option"
  currentColorIndex :: int
  meterScale :: real
  val :: "point list"
  circleCenterX :: real
  circleCenterY :: real
  listenerPoint :: point
  bgRadius :: real
  nodeSize :: real
  nodeSizeMain :: real
  activeBorderColor :: string
  customColors :: "string list"
  transmitMode :: int
  headOrientation :: real
  angleRelativeToHead :: bool
  clickable :: bool
  newPointsGeneratable :: bool
  sourceElements :: "circle_el list"
  labelElements :: "text_el list"
  mouseX :: real
  mouseY :: real
  clicked :: bool
  children :: "nat list"
  nextId :: nat
  emitted :: "payload list"

datatype error = TypeError

datatype outcome = Done widget | Threw error widget

definition andThen :: "outcome \<Rightarrow> (widget \<Rightarrow> outcome) \<Rightarrow> outcome" where
  "andThen r f = (case r of Done st \<Rightarrow> f st | Threw e st \<Rightarrow> Threw e st)"

subsection \<open>The constructor\<close>

text \<open>
  The fields as the constructor sets them for a panel of the given size, after
  \<open>buildInterface\<close> has appended the background circle and the listener circle
  (identities 0 and 1) to \<open>element\<close>.
\<close>

definition PanBinaural :: "real \<Rightarrow> real \<Rightarrow> widget" where
  "PanBinaural width height =
     \<lparr> activePoint = None,
       currentColorIndex = 0,
       meterScale = 100,
       val = [],
       circleCenterX = width / 2,
       circleCenterY = height / 2,
       listenerPoint = \<lparr> pt_x = width / 2, pt_y = height / 2, label = ''Listener'', colorIndex = 0 \<rparr>,
       bgRadius = min (width / 2) (height / 2) - 50,
       nodeSize = 30,
       nodeSizeMain = 30 * 1.5,
       activeBorderColor = ''#000'',
       customColors = [''#845ec2'', ''#d65db1'', ''#ff6f91'', ''#ff9671'',
                       ''#ffc75f'', ''#f9f871'', ''#2f4858'', ''#2e6775''],
       transmitMode = 1,
       headOrientation = 0,
       angleRelativeToHead = False,
       clickable = True,
       newPointsGeneratable = True,
       sourceElements = [],
       labelElements = [],
       mouseX = 0,
       mouseY = 0,
       clicked = False,
       children = [0, 1],
       nextId = 2,
       emitted = [] \<rparr>"

subsection \<open>Geometry\<close>

definition convertToMeters :: "widget \<Rightarrow> real \<Rightarrow> real" where
  "convertToMeters st pixels = pixels / meterScale st"

definition convertToPixels :: "widget \<Rightarrow> real \<Rightarrow> real" where
  "convertToPixels st meters = meters * meterScale st"

definition polToCar :: "real \<Rightarrow> real \<Rightarrow> real \<times> real" where
  "polToCar dis angleDeg =
     (let angleRad = angleDeg / 180 * pi
      in (dis * cos angleRad, dis * sin angleRad))"

definition calculateDistance :: "widget \<Rightarrow> point \<Rightarrow> point \<Rightarrow> real" where
  "calculateDistance st pointA pointB =
     (let distX = pt_x pointB - pt_x pointA;
          distY = pt_y pointB - pt_y pointA;
          lengthInPx = sqrt (distX * distX + distY * distY)
      in convertToMeters st lengthInPx)"

definition calculateAngle :: "widget \<Rightarrow> point \<Rightarrow> real" where
  "calculateAngle st pointXY =
     (let realX = pt_x pointXY - circleCenterX st;
          realY = pt_y pointXY - circleCenterY st;
          a0 = atan2 realY realX * 180 / pi;
          a1 = (if a0 < 0 then a0 + 360 else a0);
          a2 = a1 + 90;
          a3 = (if a2 \<ge> 360 then a2 - 360 else a2)
      in if angleRelativeToHead st
         then (let a4 = a3 - headOrientation st
               in if a4 < 0 then a4 + 360 else a4)
         else a3)"

text \<open>
  The first lines of \<open>addNewPoint\<close> and of \<open>moveExistingPoint\<close>, which are the same:
  the angle less 90 degrees, reduced by 360 when it is 360 or more, \<open>polToCar\<close>,
  the scaling to pixels and the translation by the panel centre.
\<close>

definition panelCoordinates :: "widget \<Rightarrow> real \<Rightarrow> real \<Rightarrow> real \<times> real" where
  "panelCoordinates st dis ang =
     (let a1 = ang - 90;
          a2 = (if a1 \<ge> 360 then a1 - 360 else a1);
          tempPoint = polToCar dis a2
      in (convertToPixels st (fst tempPoint) + circleCenterX st,
          convertToPixels st (snd tempPoint) + circleCenterY st))"

subsection \<open>Selecting the active point\<close>

text \<open>
  The loop of \<open>setActivePoint\<close>: \<open>i\<close> is the index of the head of the remaining
  points, \<open>temp\<close> the last index found so far.
\<close>

fun hitScan :: "real \<Rightarrow> real \<Rightarrow> real \<Rightarrow> point list \<Rightarrow> nat \<Rightarrow> nat option \<Rightarrow> nat option" where
  "hitScan n x y [] i temp = temp"
| "hitScan n x y (p # ps) i temp =
     (let maxX = pt_x p + n;
          minX = pt_x p - n;
          maxY = pt_y p + n;
          minY = pt_y p - n
      in hitScan n x y ps (i + 1)
           (if x \<le> maxX \<and> x \<ge> minX \<and> y \<le> maxY \<and> y \<ge> minY then Some i else temp))"

definition setActivePoint :: "real \<Rightarrow> real \<Rightarrow> widget \<Rightarrow> widget" where
  "setActivePoint x y st = st\<lparr>activePoint := hitScan (nodeSize st) x y (val st) 0 None\<rparr>"

subsection \<open>Clamping the active point\<close>

text \<open>The coordinates \<open>scaleNode\<close> computes for a point at \<open>(x0, y0)\<close>.\<close>

definition clipped :: "widget \<Rightarrow> real \<Rightarrow> real \<Rightarrow> real \<times> real" where
  "clipped st x0 y0 =
     (let distquad = (x0 - circleCenterX st) * (x0 - circleCenterX st)
                   + (y0 - circleCenterY st) * (y0 - circleCenterY st)
      in if distquad > bgRadius st * bgRadius st
         then (let realX = x0 - circleCenterX st;
                   realY = y0 - circleCenterY st;
                   a = atan2 realY realX
               in (bgRadius st * cos a + circleCenterX st,
                   bgRadius st * sin a + circleCenterY st))
         else (x0, y0))"

definition scaleNode :: "widget \<Rightarrow> outcome" where
  "scaleNode st =
     (case activePoint st of
        None \<Rightarrow> Done st
      | Some a \<Rightarrow>
          if a < length (val st)
          then (let p = val st ! a;
                    c = clipped st (pt_x p) (pt_y p)
                in Done (st\<lparr>val := (val st)[a := p\<lparr>pt_x := fst c, pt_y := snd c\<rparr>]\<rparr>))
          else Threw TypeError st)"

subsection \<open>Emitting the change event\<close>

definition transmit :: "payload \<Rightarrow> widget \<Rightarrow> outcome" where
  "transmit transmitData st = Done (st\<lparr>emitted := emitted st @ [transmitData]\<rparr>)"

text \<open>The loop of transmit mode 0 over the remaining points, pushing to both arrays.\<close>

fun collect :: "widget \<Rightarrow> point list \<Rightarrow> real list \<Rightarrow> real list \<Rightarrow> real list \<times> real list" where
  "collect st [] ds as = (ds, as)"
| "collect st (p # ps) ds as =
     collect st ps (ds @ [calculateDistance st (listenerPoint st) p]) (as @ [calculateAngle st p])"

definition processToTransmit :: "widget \<Rightarrow> outcome" where
  "processToTransmit st =
     (if transmitMode st = 0
      then (let da = collect st (val st) [] []
            in transmit (AllPoints (snd da) (fst da)) st)
      else if transmitMode st = 1
      then (case activePoint st of
              Some a \<Rightarrow>
                if a < length (val st)
                then (let d = calculateDistance st (listenerPoint st) (val st ! a);
                          an = calculateAngle st (val st ! a)
                      in transmit (ActiveOnly a an d) st)
                else Threw TypeError st
            | None \<Rightarrow> Done st)
      else transmit Undefined st)"

subsection \<open>Creating points\<close>

text \<open>\<open>this.customColors[colorIndex]\<close>: \<open>None\<close> is \<open>undefined\<close>.\<close>

definition colorAt :: "widget \<Rightarrow> int \<Rightarrow> string option" where
  "colorAt st ci =
     (if 0 \<le> ci \<and> ci < int (length (customColors st))
      then Some (customColors st ! nat ci) else None)"

definition generateNewPoint :: "real \<Rightarrow> real \<Rightarrow> string \<Rightarrow> int \<Rightarrow> widget \<Rightarrow> outcome" where
  "generateNewPoint x y lbl ci st =
     (let st1 = st\<lparr>val := val st @ [\<lparr> pt_x = x, pt_y = y, label = lbl, colorIndex = ci \<rparr>]\<rparr>;
          st2 = setActivePoint x y st1
      in andThen (scaleNode st2) (\<lambda>st3.
           case activePoint st3 of
             None \<Rightarrow> Threw TypeError st3
           | Some a \<Rightarrow>
               if a < length (val st3)
               then (let p = val st3 ! a;
                         sourceElement =
                           \<lparr> c_id = nextId st3, cx = pt_x p, cy = pt_y p, c_r = nodeSize st3,
                             fill_opacity = ''0.5'', fill = colorAt st3 ci, stroke = ''none'' \<rparr>;
                         labelElement =
                           \<lparr> t_id = nextId st3 + 1, t_x = pt_x p, t_y = pt_y p + nodeSize st3 + 20,
                             t_fill = ''black'', text_anchor = ''middle'', textContent = label p \<rparr>
                     in Done (st3\<lparr>children := children st3 @ [c_id sourceElement, t_id labelElement],
                                  nextId := nextId st3 + 2,
                                  sourceElements := sourceElements st3 @ [sourceElement],
                                  labelElements := labelElements st3 @ [labelElement]\<rparr>))
               else Threw TypeError st3))"

subsection \<open>The emphasis border\<close>

text \<open>The loop of \<open>drawEmphasisCircle\<close> over the remaining markers, from index \<open>i\<close>.\<close>

fun clearStroke :: "nat \<Rightarrow> circle_el list \<Rightarrow> nat \<Rightarrow> circle_el list" where
  "clearStroke a [] i = []"
| "clearStroke a (e # es) i =
     (if i \<noteq> a then e\<lparr>stroke := ''none''\<rparr> else e) # clearStroke a es (i + 1)"

definition drawEmphasisCircle :: "widget \<Rightarrow> outcome" where
  "drawEmphasisCircle st =
     (case activePoint st of
        None \<Rightarrow> Threw TypeError st
      | Some a \<Rightarrow>
          if a < length (sourceElements st)
          then (let es = (sourceElements st)[a := (sourceElements st ! a)\<lparr>stroke := activeBorderColor st\<rparr>]
                in Done (st\<lparr>sourceElements := clearStroke a es 0\<rparr>))
          else Threw TypeError st)"

subsection \<open>The pointer handlers\<close>

definition move :: "widget \<Rightarrow> outcome" where
  "move st =
     (if clickable st then
        if clicked st then
          andThen
            (case activePoint st of
               Some a \<Rightarrow>
                 if a < length (val st)
                 then (let st1 = st\<lparr>val := (val st)[a := (val st ! a)\<lparr>pt_x := mouseX st, pt_y := mouseY st\<rparr>]\<rparr>
                       in andThen (scaleNode st1) (\<lambda>st2.
                          andThen (drawEmphasisCircle st2) (\<lambda>st3.
                            if a < length (sourceElements st3)
                            then (let p = val st3 ! a;
                                      st4 = st3\<lparr>sourceElements :=
                                              (sourceElements st3)[a := (sourceElements st3 ! a)\<lparr>cx := pt_x p, cy := pt_y p\<rparr>]\<rparr>
                                  in if a < length (labelElements st4)
                                     then Done (st4\<lparr>labelElements :=
                                                  (labelElements st4)[a := (labelElements st4 ! a)
                                                     \<lparr>t_x := pt_x p, t_y := pt_y p + nodeSize st4 + 20\<rparr>]\<rparr>)
                                     else Threw TypeError st4)
                            else Threw TypeError st3)))
                 else Threw TypeError st
             | None \<Rightarrow> Done st)
            processToTransmit
        else Done st
      else Done st)"

definition release :: "widget \<Rightarrow> outcome" where
  "release st =
     (if clickable st then andThen (scaleNode st) processToTransmit else Done st)"

text \<open>The decimal digits of a number, as \<open>"Point " + (this.val.length+1)\<close> prints it.\<close>

fun decimal :: "nat \<Rightarrow> string" where
  "decimal n = (if n < 10 then [''0123456789'' ! n]
                else decimal (n div 10) @ [''0123456789'' ! (n mod 10)])"

declare decimal.simps [simp del]

definition click :: "widget \<Rightarrow> outcome" where
  "click st =
     (if clickable st then
        (let st1 = setActivePoint (mouseX st) (mouseY st) st
         in andThen
              (if newPointsGeneratable st1 \<and> activePoint st1 = None
               then generateNewPoint (mouseX st1) (mouseY st1)
                      (''Point '' @ decimal (length (val st1) + 1)) (currentColorIndex st1) st1
               else Done st1)
              (\<lambda>st2. andThen (scaleNode st2) (\<lambda>st3. andThen (processToTransmit st3) move)))
      else Done st)"

subsection \<open>The programmatic interface\<close>

definition addNewPoint :: "real \<Rightarrow> real \<Rightarrow> string \<Rightarrow> int \<Rightarrow> widget \<Rightarrow> outcome" where
  "addNewPoint dis ang lbl ci st =
     (let tempPoint = panelCoordinates st dis ang
      in andThen (generateNewPoint (fst tempPoint) (snd tempPoint) lbl ci st) drawEmphasisCircle)"

text \<open>
  \<open>pointIndex\<close> is any integer; \<open>this.val[pointIndex]\<close> is \<open>undefined\<close> outside the
  range of the array, and so are the two element arrays read after it.
\<close>

definition moveExistingPoint :: "int \<Rightarrow> real \<Rightarrow> real \<Rightarrow> widget \<Rightarrow> outcome" where
  "moveExistingPoint pointIdx dis ang st =
     (let newCoordinates = panelCoordinates st dis ang
      in if 0 \<le> pointIdx \<and> pointIdx < int (length (val st))
         then (let k = nat pointIdx;
                   st1 = st\<lparr>val := (val st)[k := (val st ! k)\<lparr>pt_x := fst newCoordinates, pt_y := snd newCoordinates\<rparr>]\<rparr>;
                   p = val st1 ! k
               in if k < length (sourceElements st1)
                  then (let st2 = st1\<lparr>sourceElements :=
                                    (sourceElements st1)[k := (sourceElements st1 ! k)\<lparr>cx := pt_x p, cy := pt_y p\<rparr>]\<rparr>
                        in if k < length (labelElements st2)
                           then scaleNode (st2\<lparr>labelElements :=
                                             (labelElements st2)[k := (labelElements st2 ! k)
                                                \<lparr>t_x := pt_x p, t_y := pt_y p + nodeSize st2 + 20\<rparr>]\<rparr>)
                           else Threw TypeError st2)
                  else Threw TypeError st1)
         else Threw TypeError st)"

definition changeColorIndexOfActivePoint :: "int \<Rightarrow> widget \<Rightarrow> outcome" where
  "changeColorIndexOfActivePoint ci st =
     (case activePoint st of
        Some a \<Rightarrow>
          if a < length (val st)
          then (let st1 = st\<lparr>val := (val st)[a := (val st ! a)\<lparr>colorIndex := ci\<rparr>]\<rparr>
                in if a < length (sourceElements st1)
                   then Done (st1\<lparr>sourceElements :=
                                (sourceElements st1)[a := (sourceElements st1 ! a)\<lparr>fill := colorAt st1 ci\<rparr>]\<rparr>)
                   else Threw TypeError st1)
          else Threw TypeError st
      | None \<Rightarrow> Done st)"

subsection \<open>Removing points\<close>





subsection \<open>Notions used in the statements\<close>

text \<open>The state an operation leaves behind, and whether it returned normally.\<close>

fun stateOf :: "outcome \<Rightarrow> widget" where
  "stateOf (Done st) = st"
| "stateOf (Threw e st) = st"

fun isDone :: "outcome \<Rightarrow> bool" where
  "isDone (Done st) = True"
| "isDone (Threw e st) = False"

text \<open>The distance in pixels of a point from the panel centre.\<close>

definition pixelDistance :: "widget \<Rightarrow> point \<Rightarrow> real" where
  "pixelDistance st p =
     sqrt ((pt_x p - circleCenterX st) * (pt_x p - circleCenterX st)
         + (pt_y p - circleCenterY st) * (pt_y p - circleCenterY st))"

text \<open>The direction of a point from the panel centre, as \<open>Math.atan2\<close> gives it.\<close>

definition direction :: "widget \<Rightarrow> point \<Rightarrow> real" where
  "direction st p = atan2 (pt_y p - circleCenterY st) (pt_x p - circleCenterX st)"

text \<open>The point \<open>(x, y)\<close> lies in the square box of half-width \<open>nodeSize\<close> around \<open>p\<close>.\<close>

definition inBox :: "widget \<Rightarrow> real \<Rightarrow> real \<Rightarrow> point \<Rightarrow> bool" where
  "inBox st x y p \<longleftrightarrow> \<bar>x - pt_x p\<bar> \<le> nodeSize st \<and> \<bar>y - pt_y p\<bar> \<le> nodeSize st"

text \<open>
  The three arrays in lockstep, as the pointer handlers and \<open>addNewPoint\<close> need them: one
  marker and one label per point, the label showing the text of the point at its index.
  The pairing of the markers and labels with the points, index by index, is \<open>paired\<close>
  below.
\<close>

definition lockstep :: "widget \<Rightarrow> bool" where
  "lockstep st \<longleftrightarrow>
     length (sourceElements st) = length (val st) \<and>
     length (labelElements st) = length (val st) \<and>
     map textContent (labelElements st) = map label (val st)"



subsection \<open>Concrete states\<close>

text \<open>A panel of 80 by 80 pixels after one pointer-down at its centre.\<close>

definition tinyPanel :: widget where
  "tinyPanel = stateOf (click ((PanBinaural 80 80)\<lparr>mouseX := 40, mouseY := 40, clicked := True\<rparr>))"

text \<open>The default panel with one active point far outside the boundary circle.\<close>

definition farPoint :: widget where
  "farPoint = (PanBinaural 700 700)
     \<lparr>val := [\<lparr> pt_x = 1350, pt_y = 350, label = ''Point 1'', colorIndex = 0 \<rparr>],
      activePoint := Some 0\<rparr>"

text \<open>The default panel with two points whose boxes overlap.\<close>

definition overlapping :: widget where
  "overlapping = (PanBinaural 700 700)
     \<lparr>val := [\<lparr> pt_x = 300, pt_y = 300, label = ''Point 1'', colorIndex = 0 \<rparr>,
              \<lparr> pt_x = 310, pt_y = 300, label = ''Point 2'', colorIndex = 0 \<rparr>]\<rparr>"

text \<open>The same two points in transmit mode 0.\<close>

definition allMode :: widget where
  "allMode = overlapping\<lparr>transmitMode := 0\<rparr>"

text \<open>The default panel with angles relative to a head turned by -180 degrees.\<close>

definition headTurned :: widget where
  "headTurned = (PanBinaural 700 700)\<lparr>angleRelativeToHead := True, headOrientation := - 180\<rparr>"

text \<open>A point 100 pixels to the left of the centre of the default panel.\<close>

definition westPoint :: point where
  "westPoint = \<lparr> pt_x = 250, pt_y = 350, label = ''Point 1'', colorIndex = 0 \<rparr>"


text \<open>The default panel after one point was created on the boundary circle.\<close>

definition boundaryPoint :: widget where
  "boundaryPoint = stateOf (generateNewPoint 650 350 ''Point 1'' 0 (PanBinaural 700 700))"

text \<open>The pointer held down in the box of that point, outside the boundary circle.\<close>

definition edgeClick :: widget where
  "edgeClick = boundaryPoint\<lparr>mouseX := 670, mouseY := 350, clicked := True\<rparr>"

text \<open>The pointer held down in the box of that point, inside the boundary circle.\<close>

definition insideClick :: widget where
  "insideClick = boundaryPoint\<lparr>mouseX := 640, mouseY := 350, clicked := True\<rparr>"

text \<open>
  The default panel after \<open>addNewPoint(1, 90, "S1", 0)\<close> and \<open>addNewPoint(2, 90, "S2", 0)\<close>:
  two points to the right of the centre, the second one active.
\<close>

definition twoSources :: widget where
  "twoSources = stateOf (andThen (addNewPoint 1 90 ''S1'' 0 (PanBinaural 700 700))
                                 (addNewPoint 2 90 ''S2'' 0))"



section \<open>Properties\<close>

subsection \<open>Math.atan2\<close>

lemma atan2_bounds: "- pi < atan2 y x \<and> atan2 y x \<le> pi"
proof -
  have b: "- (pi/2) < arctan (y / x)" "arctan (y / x) < pi/2"
    using arctan_bounded by auto
  have neg: "x < 0 \<Longrightarrow> 0 \<le> y \<Longrightarrow> arctan (y / x) \<le> 0"
    by (metis arctan_zero_zero arctan_le_iff divide_nonneg_neg)
  have pos: "x < 0 \<Longrightarrow> y < 0 \<Longrightarrow> 0 < arctan (y / x)"
    by (metis arctan_zero_zero arctan_less_iff divide_neg_neg)
  show ?thesis
    unfolding atan2_def using b neg pos pi_gt_zero by (auto simp: not_less)
qed

lemma cos_atan2:
  assumes "x \<noteq> 0 \<or> y \<noteq> 0"
  shows "cos (atan2 y x) = x / sqrt (x * x + y * y)"
proof -
  have key: "x \<noteq> 0 \<Longrightarrow> 1 / sqrt (1 + (y / x)\<^sup>2) = \<bar>x\<bar> / sqrt (x * x + y * y)"
  proof -
    assume x: "x \<noteq> 0"
    have "1 + (y / x)\<^sup>2 = (x * x + y * y) / (x * x)"
      using x by (simp add: field_simps power2_eq_square)
    then have "sqrt (1 + (y / x)\<^sup>2) = sqrt (x * x + y * y) / \<bar>x\<bar>"
      by (simp add: real_sqrt_divide)
    then show ?thesis by simp
  qed
  show ?thesis
  proof (cases "x = 0")
    case True
    then show ?thesis using assms by (auto simp: atan2_def)
  next
    case False
    then show ?thesis using key
      by (auto simp: atan2_def cos_arctan)
  qed
qed

lemma sin_atan2:
  assumes "x \<noteq> 0 \<or> y \<noteq> 0"
  shows "sin (atan2 y x) = y / sqrt (x * x + y * y)"
proof -
  have key: "x \<noteq> 0 \<Longrightarrow> (y / x) / sqrt (1 + (y / x)\<^sup>2) = (y / x) * \<bar>x\<bar> / sqrt (x * x + y * y)"
  proof -
    assume x: "x \<noteq> 0"
    have "1 + (y / x)\<^sup>2 = (x * x + y * y) / (x * x)"
      using x by (simp add: field_simps power2_eq_square)
    then have "sqrt (1 + (y / x)\<^sup>2) = sqrt (x * x + y * y) / \<bar>x\<bar>"
      by (simp add: real_sqrt_divide)
    then show ?thesis by simp
  qed
  show ?thesis
  proof (cases "x = 0")
    case True
    then show ?thesis using assms by (auto simp: atan2_def sgn_real_def)
  next
    case False
    then show ?thesis using key
      by (auto simp: atan2_def sin_arctan)
  qed
qed


lemma angle_unique:
  assumes "cos a = cos t" "sin a = sin t" "- pi < a" "a \<le> pi" "- pi < t" "t \<le> pi"
  shows "a = t"
proof -
  have "cis a = cis t" using assms(1,2) by (simp add: complex_eq_iff)
  then have "sgn (cis t) = cis a" by simp
  then have "Arg (cis t) = a" using assms(3,4) by (rule cis_Arg_unique)
  moreover have "Arg (cis t) = t" using assms(5,6) by (intro cis_Arg_unique) simp_all
  ultimately show ?thesis by simp
qed

lemma polar_norm:
  fixes r t :: real
  assumes "0 < r"
  shows "sqrt (r * cos t * (r * cos t) + r * sin t * (r * sin t)) = r"
proof -
  have "r * cos t * (r * cos t) + r * sin t * (r * sin t) = r * r * (cos t * cos t + sin t * sin t)"
    by (simp only: algebra_simps)
  also have "\<dots> = r * r" by simp
  finally show ?thesis using assms by simp
qed

lemma atan2_polar:
  assumes "0 < r" "- pi < t" "t \<le> pi"
  shows "atan2 (r * sin t) (r * cos t) = t"
proof -
  have nz: "r * cos t \<noteq> 0 \<or> r * sin t \<noteq> 0"
  proof (rule ccontr)
    assume "\<not> ?thesis"
    then have "cos t = 0" "sin t = 0" using assms(1) by auto
    then have "(cos t)\<^sup>2 + (sin t)\<^sup>2 = 0" by simp
    then show False by simp
  qed
  have c: "cos (atan2 (r * sin t) (r * cos t)) = cos t"
    using cos_atan2 [OF nz] polar_norm [OF assms(1), of t] assms(1) by simp
  have s: "sin (atan2 (r * sin t) (r * cos t)) = sin t"
    using sin_atan2 [OF nz] polar_norm [OF assms(1), of t] assms(1) by simp
  show ?thesis
    using angle_unique [OF c s] atan2_bounds [of "r * sin t" "r * cos t"] assms(2,3) by simp
qed


subsection \<open>Clamping\<close>

lemma decimal_1: "decimal 1 = ''1''"
  by (simp add: decimal.simps)

lemma polar_norm_abs:
  fixes r t :: real
  shows "sqrt (r * cos t * (r * cos t) + r * sin t * (r * sin t)) = \<bar>r\<bar>"
proof -
  have "r * cos t * (r * cos t) + r * sin t * (r * sin t) = r * r * (cos t * cos t + sin t * sin t)"
    by (simp only: algebra_simps)
  also have "\<dots> = r * r" by simp
  finally show ?thesis by simp
qed

lemma clipped_distance:
  assumes "0 \<le> bgRadius st" "c = clipped st x0 y0"
  shows "sqrt ((fst c - circleCenterX st) * (fst c - circleCenterX st)
             + (snd c - circleCenterY st) * (snd c - circleCenterY st)) \<le> bgRadius st"
proof (cases "(x0 - circleCenterX st) * (x0 - circleCenterX st)
            + (y0 - circleCenterY st) * (y0 - circleCenterY st) > bgRadius st * bgRadius st")
  case True
  then show ?thesis using assms by (simp add: clipped_def Let_def polar_norm_abs)
next
  case False
  then have "sqrt ((x0 - circleCenterX st) * (x0 - circleCenterX st)
            + (y0 - circleCenterY st) * (y0 - circleCenterY st)) \<le> sqrt (bgRadius st * bgRadius st)"
    by (simp only: real_sqrt_le_iff not_less)
  then show ?thesis using False assms by (simp add: clipped_def Let_def)
qed

lemma clipped_direction:
  assumes "0 < bgRadius st" "c = clipped st x0 y0"
  shows "atan2 (snd c - circleCenterY st) (fst c - circleCenterX st)
       = atan2 (y0 - circleCenterY st) (x0 - circleCenterX st)"
proof (cases "(x0 - circleCenterX st) * (x0 - circleCenterX st)
            + (y0 - circleCenterY st) * (y0 - circleCenterY st) > bgRadius st * bgRadius st")
  case True
  show ?thesis
    using True assms atan2_bounds [of "y0 - circleCenterY st" "x0 - circleCenterX st"]
    by (simp add: clipped_def Let_def atan2_polar)
next
  case False
  then show ?thesis using assms by (simp add: clipped_def Let_def)
qed

lemma calculateAngle_direction:
  assumes "direction st' q = direction st p"
    "angleRelativeToHead st' = angleRelativeToHead st" "headOrientation st' = headOrientation st"
  shows "calculateAngle st' q = calculateAngle st p"
  using assms by (simp add: calculateAngle_def direction_def Let_def)

text \<open>
  C1 (as amended). In a state with an active point, \<open>scaleNode\<close> returns normally; when the
  boundary radius is not negative, the active point is afterwards at most \<open>bgRadius\<close>
  pixels from the panel centre; when the radius is positive, the point keeps its
  direction from the centre, and with it the angle \<open>calculateAngle\<close> reports.
\<close>

theorem scaleNode_clamps:
  assumes "activePoint st = Some a" and "a < length (val st)"
  shows "\<exists>st'. scaleNode st = Done st' \<and>
           (0 \<le> bgRadius st \<longrightarrow> pixelDistance st' (val st' ! a) \<le> bgRadius st') \<and>
           (0 < bgRadius st \<longrightarrow>
              direction st' (val st' ! a) = direction st (val st ! a) \<and>
              calculateAngle st' (val st' ! a) = calculateAngle st (val st ! a))"
proof -
  define p where "p = val st ! a"
  define c where "c = clipped st (pt_x p) (pt_y p)"
  define st' where "st' = st\<lparr>val := (val st)[a := p\<lparr>pt_x := fst c, pt_y := snd c\<rparr>]\<rparr>"
  have run: "scaleNode st = Done st'"
    using assms by (simp add: scaleNode_def st'_def c_def p_def Let_def)
  have q: "val st' ! a = p\<lparr>pt_x := fst c, pt_y := snd c\<rparr>"
    using assms(2) by (simp add: st'_def)
  have same: "circleCenterX st' = circleCenterX st" "circleCenterY st' = circleCenterY st"
    "bgRadius st' = bgRadius st"
    by (simp_all add: st'_def)
  have d: "0 \<le> bgRadius st \<Longrightarrow> pixelDistance st' (val st' ! a) \<le> bgRadius st'"
    using clipped_distance [OF _ c_def] by (simp add: q pixelDistance_def same)
  have dir: "0 < bgRadius st \<Longrightarrow> direction st' (val st' ! a) = direction st (val st ! a)"
    using clipped_direction [OF _ c_def] by (simp add: q direction_def same p_def [symmetric])
  have ang: "0 < bgRadius st \<Longrightarrow> calculateAngle st' (val st' ! a) = calculateAngle st (val st ! a)"
    using dir by (intro calculateAngle_direction) (simp_all add: st'_def)
  show ?thesis using run d dir ang by blast
qed

theorem scaleNode_clamps_witness:
  "activePoint farPoint = Some 0 \<and> 0 < length (val farPoint) \<and> 0 < bgRadius farPoint \<and>
   (\<exists>st'. scaleNode farPoint = Done st' \<and>
      pixelDistance st' (val st' ! 0) \<le> bgRadius st' \<and>
      direction st' (val st' ! 0) = direction farPoint (val farPoint ! 0) \<and>
      calculateAngle st' (val st' ! 0) = calculateAngle farPoint (val farPoint ! 0))"
  using scaleNode_clamps [of farPoint 0] by (simp add: farPoint_def PanBinaural_def)

text \<open>
  C1 as stated fails on a panel smaller than 100 pixels, whose boundary radius is
  negative: the point created at the centre of an 80 by 80 panel is left where it is, at
  distance 0, above the radius of -10.
\<close>

theorem clamp_negative_radius_counterexample:
  "activePoint tinyPanel = Some 0 \<and> scaleNode tinyPanel = Done tinyPanel \<and>
   bgRadius tinyPanel = - 10 \<and> pixelDistance tinyPanel (val tinyPanel ! 0) = 0 \<and>
   \<not> pixelDistance tinyPanel (val tinyPanel ! 0) \<le> bgRadius tinyPanel"
  by (simp add: tinyPanel_def click_def PanBinaural_def setActivePoint_def generateNewPoint_def
    scaleNode_def andThen_def processToTransmit_def move_def drawEmphasisCircle_def transmit_def
    Let_def clipped_def colorAt_def decimal_1 calculateDistance_def calculateAngle_def
    convertToMeters_def atan2_def pixelDistance_def)

subsection \<open>Hit-testing\<close>

lemma hitScan_append:
  "hitScan n x y (ps @ qs) i temp = hitScan n x y qs (i + length ps) (hitScan n x y ps i temp)"
  by (induction ps arbitrary: i temp) (simp_all add: Let_def)

lemma hitScan_snoc:
  "hitScan n x y (ps @ [p]) i temp =
     (if \<bar>x - pt_x p\<bar> \<le> n \<and> \<bar>y - pt_y p\<bar> \<le> n then Some (i + length ps)
      else hitScan n x y ps i temp)"
  by (auto simp: hitScan_append Let_def abs_le_iff)

lemma hitScan_None:
  "hitScan n x y ps 0 None = None \<longleftrightarrow>
     (\<forall>j<length ps. \<not> (\<bar>x - pt_x (ps ! j)\<bar> \<le> n \<and> \<bar>y - pt_y (ps ! j)\<bar> \<le> n))"
proof (induction ps rule: rev_induct)
  case Nil
  then show ?case by simp
next
  case (snoc p ps)
  show ?case
  proof (cases "\<bar>x - pt_x p\<bar> \<le> n \<and> \<bar>y - pt_y p\<bar> \<le> n")
    case True
    then have "\<exists>j<length (ps @ [p]). \<bar>x - pt_x ((ps @ [p]) ! j)\<bar> \<le> n \<and> \<bar>y - pt_y ((ps @ [p]) ! j)\<bar> \<le> n"
      by (intro exI [of _ "length ps"]) simp
    with True show ?thesis by (auto simp: hitScan_snoc)
  next
    case False
    then show ?thesis using snoc.IH
      by (auto simp: hitScan_snoc nth_append less_Suc_eq)
  qed
qed

lemma hitScan_Some:
  "hitScan n x y ps 0 None = Some k \<longleftrightarrow>
     k < length ps \<and> \<bar>x - pt_x (ps ! k)\<bar> \<le> n \<and> \<bar>y - pt_y (ps ! k)\<bar> \<le> n \<and>
     (\<forall>j<length ps. \<bar>x - pt_x (ps ! j)\<bar> \<le> n \<and> \<bar>y - pt_y (ps ! j)\<bar> \<le> n \<longrightarrow> j \<le> k)"
proof (induction ps rule: rev_induct)
  case Nil
  then show ?case by simp
next
  case (snoc p ps)
  define H where "H = (\<lambda>q::point. \<bar>x - pt_x q\<bar> \<le> n \<and> \<bar>y - pt_y q\<bar> \<le> n)"
  have IH: "hitScan n x y ps 0 None = Some k \<longleftrightarrow>
      k < length ps \<and> H (ps ! k) \<and> (\<forall>j<length ps. H (ps ! j) \<longrightarrow> j \<le> k)"
    using snoc.IH by (simp add: H_def)
  have nth: "\<And>j. j < length ps \<Longrightarrow> (ps @ [p]) ! j = ps ! j"
    by (simp add: nth_append)
  have goal: "hitScan n x y (ps @ [p]) 0 None = Some k \<longleftrightarrow>
      k < Suc (length ps) \<and> H ((ps @ [p]) ! k) \<and>
      (\<forall>j<length ps. H (ps ! j) \<longrightarrow> j \<le> k) \<and> (H p \<longrightarrow> length ps \<le> k)"
  proof (cases "H p")
    case True
    have "\<bar>x - pt_x p\<bar> \<le> n \<and> \<bar>y - pt_y p\<bar> \<le> n"
      using True by (simp add: H_def)
    then have "hitScan n x y (ps @ [p]) 0 None = Some (length ps)"
      by (simp add: hitScan_snoc)
    moreover have "k < Suc (length ps) \<and> length ps \<le> k \<longleftrightarrow> k = length ps" by arith
    ultimately show ?thesis using True by auto
  next
    case False
    have "\<not> (\<bar>x - pt_x p\<bar> \<le> n \<and> \<bar>y - pt_y p\<bar> \<le> n)"
      using False by (simp add: H_def)
    then have eq: "hitScan n x y (ps @ [p]) 0 None = hitScan n x y ps 0 None"
      by (simp only: hitScan_snoc if_False)
    have A: "k < Suc (length ps) \<and> H ((ps @ [p]) ! k) \<longleftrightarrow> k < length ps \<and> H (ps ! k)"
    proof (cases "k < length ps")
      case True
      then show ?thesis by (simp add: nth)
    next
      case False
      have "(ps @ [p]) ! k = p" if "k < Suc (length ps)"
      proof -
        have "k = length ps" using that False by simp
        then show ?thesis by simp
      qed
      then show ?thesis using False \<open>\<not> H p\<close> by auto
    qed
    from A False show ?thesis unfolding eq IH by auto
  qed
  have "(\<forall>j<length (ps @ [p]). H ((ps @ [p]) ! j) \<longrightarrow> j \<le> k) \<longleftrightarrow>
        (\<forall>j<length ps. H (ps ! j) \<longrightarrow> j \<le> k) \<and> (H p \<longrightarrow> length ps \<le> k)"
    by (simp add: All_less_Suc nth conj_commute)
  then show ?case using goal by (simp add: H_def)
qed

lemma activePoint_setActivePoint:
  "activePoint (setActivePoint x y st) = hitScan (nodeSize st) x y (val st) 0 None"
  by (simp add: setActivePoint_def)

lemma setActivePoint_Some:
  "activePoint (setActivePoint x y st) = Some k \<longleftrightarrow>
      k < length (val st) \<and> inBox st x y (val st ! k) \<and>
      (\<forall>j<length (val st). inBox st x y (val st ! j) \<longrightarrow> j \<le> k)"
  unfolding activePoint_setActivePoint inBox_def by (simp only: hitScan_Some conj_assoc)

lemma setActivePoint_None:
  "activePoint (setActivePoint x y st) = None \<longleftrightarrow>
      (\<forall>j<length (val st). \<not> inBox st x y (val st ! j))"
  unfolding activePoint_setActivePoint inBox_def by (rule hitScan_None)

lemma setActivePoint_idem:
  "setActivePoint x y (setActivePoint x y st) = setActivePoint x y st"
  by (simp add: setActivePoint_def)

lemma setActivePoint_only:
  "setActivePoint x y st = st\<lparr>activePoint := activePoint (setActivePoint x y st)\<rparr>"
  by (simp add: setActivePoint_def)

text \<open>
  C6. \<open>setActivePoint\<close> makes \<open>k\<close> the active index exactly when \<open>k\<close> is the highest
  index of a point whose box of half-width \<open>nodeSize\<close> contains \<open>(x, y)\<close>, and leaves no
  active index exactly when no box contains \<open>(x, y)\<close>. It changes nothing but the active
  index, and a second call on the unchanged state gives the same state.
\<close>

theorem setActivePoint_highest_hit:
  "(activePoint (setActivePoint x y st) = Some k \<longleftrightarrow>
      k < length (val st) \<and> inBox st x y (val st ! k) \<and>
      (\<forall>j<length (val st). inBox st x y (val st ! j) \<longrightarrow> j \<le> k)) \<and>
   (activePoint (setActivePoint x y st) = None \<longleftrightarrow>
      (\<forall>j<length (val st). \<not> inBox st x y (val st ! j))) \<and>
   setActivePoint x y st = st\<lparr>activePoint := activePoint (setActivePoint x y st)\<rparr> \<and>
   setActivePoint x y (setActivePoint x y st) = setActivePoint x y st"
  using setActivePoint_Some [of x y st k] setActivePoint_None [of x y st]
    setActivePoint_only [of x y st] setActivePoint_idem [of x y st]
  by blast

theorem setActivePoint_highest_hit_witness:
  "1 < length (val overlapping) \<and> inBox overlapping 305 300 (val overlapping ! 0) \<and>
   inBox overlapping 305 300 (val overlapping ! 1) \<and>
   activePoint (setActivePoint 305 300 overlapping) = Some 1 \<and>
   activePoint (setActivePoint 500 500 overlapping) = None"
  using setActivePoint_highest_hit [of 305 300 overlapping 1]
    setActivePoint_highest_hit [of 500 500 overlapping 0]
  by (simp add: overlapping_def PanBinaural_def inBox_def setActivePoint_def)

subsection \<open>The change event\<close>

lemma collect_maps:
  "collect st ps ds as =
     (ds @ map (calculateDistance st (listenerPoint st)) ps, as @ map (calculateAngle st) ps)"
  by (induction ps arbitrary: ds as) simp_all

text \<open>
  C5. In transmit mode 0, \<open>processToTransmit\<close> emits one event with two arrays as long as
  the collection, holding at each index the distance from the listener and the angle of
  the point at that index.
\<close>

theorem transmit_all_points:
  assumes "transmitMode st = 0"
  shows "\<exists>ds as. processToTransmit st = Done (st\<lparr>emitted := emitted st @ [AllPoints as ds]\<rparr>) \<and>
           length ds = length (val st) \<and> length as = length (val st) \<and>
           (\<forall>i<length (val st).
              ds ! i = calculateDistance st (listenerPoint st) (val st ! i) \<and>
              as ! i = calculateAngle st (val st ! i))"
proof -
  let ?ds = "map (calculateDistance st (listenerPoint st)) (val st)"
  let ?as = "map (calculateAngle st) (val st)"
  have "processToTransmit st = Done (st\<lparr>emitted := emitted st @ [AllPoints ?as ?ds]\<rparr>)"
    using assms by (simp add: processToTransmit_def collect_maps transmit_def)
  moreover have "length ?ds = length (val st)" "length ?as = length (val st)" by simp_all
  moreover have "\<forall>i<length (val st).
              ?ds ! i = calculateDistance st (listenerPoint st) (val st ! i) \<and>
              ?as ! i = calculateAngle st (val st ! i)" by simp
  ultimately show ?thesis by blast
qed

theorem transmit_all_points_witness:
  "transmitMode allMode = 0 \<and>
   (\<exists>ds as. processToTransmit allMode = Done (allMode\<lparr>emitted := emitted allMode @ [AllPoints as ds]\<rparr>) \<and>
      length ds = 2 \<and> length as = 2)"
proof -
  have m: "transmitMode allMode = 0"
    by (simp add: allMode_def)
  have l: "length (val allMode) = 2"
    by (simp add: allMode_def overlapping_def)
  from transmit_all_points [OF m] obtain ds as where
    "processToTransmit allMode = Done (allMode\<lparr>emitted := emitted allMode @ [AllPoints as ds]\<rparr>)"
    "length ds = length (val allMode)" "length as = length (val allMode)"
    by blast
  then show ?thesis using m l by auto
qed

text \<open>
  C4. In transmit mode 1, \<open>processToTransmit\<close> leaves the state as it is, and so emits
  nothing, when there is no active point; with an active point of the collection it emits
  exactly one event, carrying the active index with the angle and the distance from the
  listener of the active point.
\<close>

theorem transmit_active_only:
  assumes "transmitMode st = 1"
  shows "(activePoint st = None \<longrightarrow> processToTransmit st = Done st) \<and>
         (\<forall>a. activePoint st = Some a \<and> a < length (val st) \<longrightarrow>
            processToTransmit st =
              Done (st\<lparr>emitted := emitted st @
                [ActiveOnly a (calculateAngle st (val st ! a))
                              (calculateDistance st (listenerPoint st) (val st ! a))]\<rparr>))"
  using assms by (simp add: processToTransmit_def transmit_def)

theorem transmit_active_only_witness:
  "transmitMode (PanBinaural 700 700) = 1 \<and> activePoint (PanBinaural 700 700) = None \<and>
   processToTransmit (PanBinaural 700 700) = Done (PanBinaural 700 700) \<and>
   transmitMode farPoint = 1 \<and> activePoint farPoint = Some 0 \<and> 0 < length (val farPoint) \<and>
   processToTransmit farPoint =
     Done (farPoint\<lparr>emitted := emitted farPoint @
       [ActiveOnly 0 (calculateAngle farPoint (val farPoint ! 0))
                     (calculateDistance farPoint (listenerPoint farPoint) (val farPoint ! 0))]\<rparr>)"
proof -
  have a: "transmitMode (PanBinaural 700 700) = 1" "activePoint (PanBinaural 700 700) = None"
    by (simp_all add: PanBinaural_def)
  have b: "transmitMode farPoint = 1" "activePoint farPoint = Some 0" "0 < length (val farPoint)"
    by (simp_all add: farPoint_def PanBinaural_def)
  show ?thesis
    using transmit_active_only [OF a(1)] transmit_active_only [OF b(1)] a b by simp
qed


subsection \<open>The range of the angle\<close>

lemma atan2_degrees: "- 180 < atan2 y x * 180 / pi \<and> atan2 y x * 180 / pi \<le> 180"
proof -
  have "- pi < atan2 y x" "atan2 y x \<le> pi" using atan2_bounds [of y x] by simp_all
  then show ?thesis
    using pi_gt_zero by (simp add: pos_less_divide_eq pos_divide_le_eq)
qed

lemma calculateAngle_absolute_range:
  assumes "\<not> angleRelativeToHead st"
  shows "0 \<le> calculateAngle st p \<and> calculateAngle st p < 360"
proof -
  define a0 where "a0 = atan2 (pt_y p - circleCenterY st) (pt_x p - circleCenterX st) * 180 / pi"
  have b: "- 180 < a0" "a0 \<le> 180" using atan2_degrees by (simp_all add: a0_def)
  have "calculateAngle st p =
     (let a1 = (if a0 < 0 then a0 + 360 else a0);
          a2 = a1 + 90
      in if a2 \<ge> 360 then a2 - 360 else a2)"
    using assms by (simp add: calculateAngle_def a0_def Let_def)
  then show ?thesis using b by (auto simp: Let_def)
qed

text \<open>
  C7. The claim that \<open>calculateAngle\<close> returns a value in \<open>[0, 360)\<close> for every head
  orientation does not hold of the code. The rotation by 90 degrees is brought back
  into range in both directions, so that the angle of the point to the left of the centre
  is 270; after the subtraction of \<open>headOrientation\<close> only a negative result is brought
  back, so that with the head turned by -180 degrees the same point gets 270 + 180 = 450.
\<close>

theorem calculateAngle_exceeds_range:
  "angleRelativeToHead headTurned \<and> headOrientation headTurned = - 180 \<and>
   calculateAngle (headTurned\<lparr>angleRelativeToHead := False\<rparr>) westPoint = 270 \<and>
   calculateAngle headTurned westPoint = 450 \<and> \<not> calculateAngle headTurned westPoint < 360"
  by (simp add: headTurned_def westPoint_def PanBinaural_def calculateAngle_def atan2_def Let_def)

subsection \<open>Indices out of range\<close>

text \<open>
  C8 (as amended). \<open>changeColorIndexOfActivePoint\<close> without an active point returns
  normally and leaves the state as it is. \<open>moveExistingPoint\<close> with an index outside the
  collection does not return normally: it raises a \<open>TypeError\<close>, before it has changed
  anything.
\<close>

theorem invalid_index_behaviour:
  "(\<not> (0 \<le> k \<and> k < int (length (val st))) \<longrightarrow>
      moveExistingPoint k dis ang st = Threw TypeError st) \<and>
   (activePoint st = None \<longrightarrow> changeColorIndexOfActivePoint ci st = Done st)"
  by (simp add: moveExistingPoint_def changeColorIndexOfActivePoint_def Let_def)

theorem invalid_index_behaviour_witness:
  "\<not> (0 \<le> (3::int) \<and> 3 < int (length (val (PanBinaural 700 700)))) \<and>
   moveExistingPoint 3 1 0 (PanBinaural 700 700) = Threw TypeError (PanBinaural 700 700) \<and>
   activePoint (PanBinaural 700 700) = None \<and>
   changeColorIndexOfActivePoint 2 (PanBinaural 700 700) = Done (PanBinaural 700 700)"
  using invalid_index_behaviour [of 3 "PanBinaural 700 700" 1 0 2]
  by (simp add: PanBinaural_def)

text \<open>
  C8 as stated fails for \<open>moveExistingPoint\<close>: on the empty default panel, moving the point
  at index 3 raises a \<open>TypeError\<close>.
\<close>

theorem moveExistingPoint_counterexample:
  "moveExistingPoint 3 1 0 (PanBinaural 700 700) = Threw TypeError (PanBinaural 700 700) \<and>
   \<not> isDone (moveExistingPoint 3 1 0 (PanBinaural 700 700))"
  by (simp add: moveExistingPoint_def PanBinaural_def Let_def)

subsection \<open>The operations in closed form\<close>

lemma scaleNode_Some:
  assumes "activePoint st = Some a" "a < length (val st)"
  shows "scaleNode st =
     Done (st\<lparr>val := (val st)[a := (val st ! a)
        \<lparr>pt_x := fst (clipped st (pt_x (val st ! a)) (pt_y (val st ! a))),
         pt_y := snd (clipped st (pt_x (val st ! a)) (pt_y (val st ! a)))\<rparr>]\<rparr>)"
  using assms by (simp add: scaleNode_def Let_def)

lemma hitScan_last:
  assumes "0 \<le> n"
  shows "hitScan n x y (ps @ [\<lparr> pt_x = x, pt_y = y, label = lbl, colorIndex = ci \<rparr>]) 0 None
       = Some (length ps)"
  using assms by (simp add: hitScan_snoc)

lemma clipped_unchanged_fields [simp]:
  "clipped (st\<lparr>val := v\<rparr>) = clipped st"
  "clipped (st\<lparr>activePoint := ap\<rparr>) = clipped st"
  by (simp_all add: clipped_def fun_eq_iff)

lemma generateNewPoint_Done:
  assumes "0 \<le> nodeSize st"
  shows "generateNewPoint x y lbl ci st =
     Done (st\<lparr>val := val st @ [\<lparr> pt_x = fst (clipped st x y), pt_y = snd (clipped st x y),
                                   label = lbl, colorIndex = ci \<rparr>],
              activePoint := Some (length (val st)),
              children := children st @ [nextId st, nextId st + 1],
              nextId := nextId st + 2,
              sourceElements := sourceElements st @
                [\<lparr> c_id = nextId st, cx = fst (clipped st x y), cy = snd (clipped st x y),
                   c_r = nodeSize st, fill_opacity = ''0.5'', fill = colorAt st ci, stroke = ''none'' \<rparr>],
              labelElements := labelElements st @
                [\<lparr> t_id = nextId st + 1, t_x = fst (clipped st x y),
                   t_y = snd (clipped st x y) + nodeSize st + 20,
                   t_fill = ''black'', text_anchor = ''middle'', textContent = lbl \<rparr>]\<rparr>)"
  using assms
  by (simp add: generateNewPoint_def setActivePoint_def hitScan_last scaleNode_def andThen_def
      Let_def colorAt_def)

subsection \<open>Points, markers and labels in lockstep\<close>





















subsection \<open>Pointer-down on an existing point\<close>

lemma processToTransmit_emits:
  assumes "activePoint st = Some a" "a < length (val st)"
  shows "\<exists>e. processToTransmit st = Done (st\<lparr>emitted := emitted st @ [e]\<rparr>)"
proof -
  consider "transmitMode st = 0" | "transmitMode st = 1" | "transmitMode st \<noteq> 0" "transmitMode st \<noteq> 1"
    by blast
  then show ?thesis
  proof cases
    case 1
    then have "processToTransmit st = Done (st\<lparr>emitted := emitted st @
        [AllPoints (snd (collect st (val st) [] [])) (fst (collect st (val st) [] []))]\<rparr>)"
      by (simp add: processToTransmit_def transmit_def Let_def)
    then show ?thesis by (rule exI)
  next
    case 2
    then have "processToTransmit st = Done (st\<lparr>emitted := emitted st @
        [ActiveOnly a (calculateAngle st (val st ! a))
                      (calculateDistance st (listenerPoint st) (val st ! a))]\<rparr>)"
      using assms by (simp add: processToTransmit_def transmit_def Let_def)
    then show ?thesis by (rule exI)
  next
    case 3
    then have "processToTransmit st = Done (st\<lparr>emitted := emitted st @ [Undefined]\<rparr>)"
      by (simp add: processToTransmit_def transmit_def)
    then show ?thesis by (rule exI)
  qed
qed

lemma clearStroke_length: "length (clearStroke a es i) = length es"
  by (induction es arbitrary: i) simp_all

lemma clearStroke_nth:
  "j < length es \<Longrightarrow>
   clearStroke a es i ! j = (if i + j \<noteq> a then (es ! j)\<lparr>stroke := ''none''\<rparr> else es ! j)"
proof (induction es arbitrary: i j)
  case Nil
  then show ?case by simp
next
  case (Cons e es)
  show ?case
  proof (cases j)
    case 0
    then show ?thesis by simp
  next
    case (Suc j')
    then have "j' < length es" using Cons.prems by simp
    from Cons.IH [OF this, of "i + 1"] show ?thesis using Suc by simp
  qed
qed

lemma drawEmphasisCircle_Done:
  assumes "activePoint st = Some a" "a < length (sourceElements st)"
  shows "\<exists>es. drawEmphasisCircle st = Done (st\<lparr>sourceElements := es\<rparr>) \<and>
           length es = length (sourceElements st) \<and>
           es ! a = (sourceElements st ! a)\<lparr>stroke := activeBorderColor st\<rparr>"
proof -
  define es0 where "es0 = (sourceElements st)[a := (sourceElements st ! a)\<lparr>stroke := activeBorderColor st\<rparr>]"
  have "drawEmphasisCircle st = Done (st\<lparr>sourceElements := clearStroke a es0 0\<rparr>)"
    using assms by (simp add: drawEmphasisCircle_def Let_def es0_def)
  moreover have "length (clearStroke a es0 0) = length (sourceElements st)"
    by (simp add: clearStroke_length es0_def)
  moreover have "clearStroke a es0 0 ! a = (sourceElements st ! a)\<lparr>stroke := activeBorderColor st\<rparr>"
    using assms(2) by (simp add: clearStroke_nth es0_def)
  ultimately show ?thesis by blast
qed

lemma move_Done:
  assumes "clickable st" "clicked st" "activePoint st = Some a" "a < length (val st)"
    "length (sourceElements st) = length (val st)" "length (labelElements st) = length (val st)"
  shows "\<exists>st' e. move st = Done st' \<and> activePoint st' = Some a \<and>
           length (val st') = length (val st) \<and>
           pt_x (val st' ! a) = fst (clipped st (mouseX st) (mouseY st)) \<and>
           pt_y (val st' ! a) = snd (clipped st (mouseX st) (mouseY st)) \<and>
           cx (sourceElements st' ! a) = fst (clipped st (mouseX st) (mouseY st)) \<and>
           cy (sourceElements st' ! a) = snd (clipped st (mouseX st) (mouseY st)) \<and>
           t_x (labelElements st' ! a) = fst (clipped st (mouseX st) (mouseY st)) \<and>
           t_y (labelElements st' ! a) = snd (clipped st (mouseX st) (mouseY st)) + nodeSize st + 20 \<and>
           emitted st' = emitted st @ [e]"
proof -
  define c where "c = clipped st (mouseX st) (mouseY st)"
  define st1 where "st1 = st\<lparr>val := (val st)[a := (val st ! a)\<lparr>pt_x := mouseX st, pt_y := mouseY st\<rparr>]\<rparr>"
  define st2 where "st2 = st1\<lparr>val := (val st1)[a := (val st1 ! a)\<lparr>pt_x := fst c, pt_y := snd c\<rparr>]\<rparr>"
  have s2: "scaleNode st1 = Done st2"
    using assms(3,4) scaleNode_Some [of st1 a]
    by (simp add: st1_def st2_def c_def)
  have a2: "activePoint st2 = Some a" "a < length (sourceElements st2)"
    "sourceElements st2 = sourceElements st"
    using assms by (simp_all add: st2_def st1_def)
  from drawEmphasisCircle_Done [OF a2(1,2)] obtain es where
    d: "drawEmphasisCircle st2 = Done (st2\<lparr>sourceElements := es\<rparr>)"
    and es2: "length es = length (sourceElements st2)"
    by blast
  have es: "length es = length (sourceElements st)"
    using es2 by (simp only: a2(3))
  define st3 where "st3 = st2\<lparr>sourceElements := es\<rparr>"
  have v3: "val st3 ! a = (val st ! a)\<lparr>pt_x := fst c, pt_y := snd c\<rparr>"
    using assms(4) by (simp add: st3_def st2_def st1_def)
  define st4 where "st4 = st3\<lparr>sourceElements := es[a := (es ! a)\<lparr>cx := fst c, cy := snd c\<rparr>]\<rparr>"
  define st5 where "st5 = st4\<lparr>labelElements := (labelElements st)[a := (labelElements st ! a)
       \<lparr>t_x := fst c, t_y := snd c + nodeSize st + 20\<rparr>]\<rparr>"
  have inner: "(if a < length (sourceElements st3)
                then (let p = val st3 ! a;
                          st4 = st3\<lparr>sourceElements :=
                                  (sourceElements st3)[a := (sourceElements st3 ! a)\<lparr>cx := pt_x p, cy := pt_y p\<rparr>]\<rparr>
                      in if a < length (labelElements st4)
                         then Done (st4\<lparr>labelElements :=
                                      (labelElements st4)[a := (labelElements st4 ! a)
                                         \<lparr>t_x := pt_x p, t_y := pt_y p + nodeSize st4 + 20\<rparr>]\<rparr>)
                         else Threw TypeError st4)
                else Threw TypeError st3) = Done st5"
    using assms(4,5,6) es v3
    by (simp add: Let_def st5_def st4_def) (simp add: st3_def st2_def st1_def)
  have a5: "activePoint st5 = Some a" "a < length (val st5)"
    using assms(3,4) by (simp_all add: st5_def st4_def st3_def st2_def st1_def)
  from processToTransmit_emits [OF a5] obtain e where
    p: "processToTransmit st5 = Done (st5\<lparr>emitted := emitted st5 @ [e]\<rparr>)" by blast
  have run: "move st = Done (st5\<lparr>emitted := emitted st5 @ [e]\<rparr>)"
    using assms(1-4) s2 d inner p
    by (simp add: move_def andThen_def Let_def st1_def [symmetric] st3_def [symmetric])
  show ?thesis
    unfolding run c_def [symmetric]
    using assms(3,4,5,6) es
    by (simp add: st5_def st4_def st3_def st2_def st1_def)
qed

lemma clipped_cong:
  assumes "circleCenterX st' = circleCenterX st" "circleCenterY st' = circleCenterY st"
    "bgRadius st' = bgRadius st"
  shows "clipped st' x y = clipped st x y"
  using assms by (simp add: clipped_def)

lemma clipped_inside:
  assumes "(x - circleCenterX st) * (x - circleCenterX st)
         + (y - circleCenterY st) * (y - circleCenterY st) \<le> bgRadius st * bgRadius st"
  shows "clipped st x y = (x, y)"
  using assms by (simp add: clipped_def Let_def)

lemma click_hit:
  assumes "clickable st" and "clicked st" and "lockstep st"
    and hit: "activePoint (setActivePoint (mouseX st) (mouseY st) st) = Some a"
  shows "\<exists>st' e1 e2. click st = Done st' \<and> activePoint st' = Some a \<and>
           pt_x (val st' ! a) = fst (clipped st (mouseX st) (mouseY st)) \<and>
           pt_y (val st' ! a) = snd (clipped st (mouseX st) (mouseY st)) \<and>
           cx (sourceElements st' ! a) = pt_x (val st' ! a) \<and>
           cy (sourceElements st' ! a) = pt_y (val st' ! a) \<and>
           emitted st' = emitted st @ [e1, e2]"
proof -
  define st1 where "st1 = st\<lparr>activePoint := Some a\<rparr>"
  have "hitScan (nodeSize st) (mouseX st) (mouseY st) (val st) 0 None = Some a"
    using hit by (simp only: activePoint_setActivePoint)
  then have s1: "setActivePoint (mouseX st) (mouseY st) st = st1"
    by (simp add: setActivePoint_def st1_def)
  have a: "a < length (val st)"
    using hit by (simp add: setActivePoint_Some)
  have len: "length (sourceElements st) = length (val st)" "length (labelElements st) = length (val st)"
    using assms(3) by (simp_all add: lockstep_def)
  define q where "q = (val st ! a)
        \<lparr>pt_x := fst (clipped st1 (pt_x (val st ! a)) (pt_y (val st ! a))),
         pt_y := snd (clipped st1 (pt_x (val st ! a)) (pt_y (val st ! a)))\<rparr>"
  define st2 where "st2 = st1\<lparr>val := (val st)[a := q]\<rparr>"
  have s2: "scaleNode st1 = Done st2"
    using scaleNode_Some [of st1 a] a by (simp add: st1_def st2_def q_def)
  have a2: "activePoint st2 = Some a" "a < length (val st2)"
    using a by (simp_all add: st2_def st1_def)
  from processToTransmit_emits [OF a2] obtain e1 where
    p: "processToTransmit st2 = Done (st2\<lparr>emitted := emitted st2 @ [e1]\<rparr>)" by blast
  define st3 where "st3 = st2\<lparr>emitted := emitted st2 @ [e1]\<rparr>"
  have pre3: "clickable st3" "clicked st3" "activePoint st3 = Some a" "a < length (val st3)"
    "length (sourceElements st3) = length (val st3)" "length (labelElements st3) = length (val st3)"
    using assms(1,2) a len by (simp_all add: st3_def st2_def st1_def)
  have same3: "mouseX st3 = mouseX st" "mouseY st3 = mouseY st" "nodeSize st3 = nodeSize st"
    "emitted st3 = emitted st @ [e1]"
    by (simp_all add: st3_def st2_def st1_def)
  have clip3: "clipped st3 (mouseX st) (mouseY st) = clipped st (mouseX st) (mouseY st)"
    by (rule clipped_cong) (simp_all add: st3_def st2_def st1_def)
  from move_Done [OF pre3] obtain st' e2 where
    m: "move st3 = Done st'" and r: "activePoint st' = Some a"
      "pt_x (val st' ! a) = fst (clipped st3 (mouseX st3) (mouseY st3))"
      "pt_y (val st' ! a) = snd (clipped st3 (mouseX st3) (mouseY st3))"
      "cx (sourceElements st' ! a) = fst (clipped st3 (mouseX st3) (mouseY st3))"
      "cy (sourceElements st' ! a) = snd (clipped st3 (mouseX st3) (mouseY st3))"
      "emitted st' = emitted st3 @ [e2]"
    by blast
  have run: "click st = Done st'"
    using assms(1) s1 s2 p m
    by (simp add: click_def andThen_def Let_def st3_def [symmetric]) (simp add: st1_def)
  have r': "pt_x (val st' ! a) = fst (clipped st (mouseX st) (mouseY st))"
      "pt_y (val st' ! a) = snd (clipped st (mouseX st) (mouseY st))"
      "cx (sourceElements st' ! a) = pt_x (val st' ! a)"
      "cy (sourceElements st' ! a) = pt_y (val st' ! a)"
      "emitted st' = emitted st @ [e1, e2]"
    using r(2-6) by (simp_all only: same3 clip3 append_assoc append_Cons append_Nil)
  show ?thesis using run r(1) r' by blast
qed

lemma boundaryPoint_eval:
  "boundaryPoint = (PanBinaural 700 700)
     \<lparr>val := [\<lparr> pt_x = 650, pt_y = 350, label = ''Point 1'', colorIndex = 0 \<rparr>],
      activePoint := Some 0,
      children := [0, 1, 2, 3],
      nextId := 4,
      sourceElements := [\<lparr> c_id = 2, cx = 650, cy = 350, c_r = 30, fill_opacity = ''0.5'',
                            fill = Some ''#845ec2'', stroke = ''none'' \<rparr>],
      labelElements := [\<lparr> t_id = 3, t_x = 650, t_y = 400, t_fill = ''black'',
                           text_anchor = ''middle'', textContent = ''Point 1'' \<rparr>]\<rparr>"
  by (simp add: boundaryPoint_def generateNewPoint_Done PanBinaural_def clipped_def colorAt_def)

lemma edgeClick_facts:
  "clickable edgeClick" "clicked edgeClick" "lockstep edgeClick"
  "mouseX edgeClick = 670" "mouseY edgeClick = 350"
  "activePoint (setActivePoint (mouseX edgeClick) (mouseY edgeClick) edgeClick) = Some 0"
  "clipped edgeClick 670 350 = (650, 350)"
  by (simp_all add: edgeClick_def boundaryPoint_eval PanBinaural_def lockstep_def
      setActivePoint_def clipped_def atan2_def)

lemma insideClick_facts:
  "clickable insideClick" "clicked insideClick" "lockstep insideClick"
  "mouseX insideClick = 640" "mouseY insideClick = 350"
  "activePoint (setActivePoint (mouseX insideClick) (mouseY insideClick) insideClick) = Some 0"
  "circleCenterX insideClick = 350" "circleCenterY insideClick = 350" "bgRadius insideClick = 300"
  "emitted insideClick = []"
  by (simp_all add: insideClick_def boundaryPoint_eval PanBinaural_def lockstep_def
      setActivePoint_def)

text \<open>
  C10 (as amended). With \<open>clickable\<close> and \<open>clicked\<close> set and the three arrays in lockstep,
  a pointer-down that hit-tests to the point at index \<open>a\<close> returns normally, keeps \<open>a\<close>
  active, stores at \<open>a\<close> the pointer location clamped to the boundary circle, moves the
  marker centre to the stored coordinates, and emits exactly two change events. When the
  pointer lies within the boundary circle, the stored coordinates and the marker centre
  are the pointer location itself.
\<close>

theorem click_on_existing_point:
  assumes "clickable st" and "clicked st" and "lockstep st"
    and hit: "activePoint (setActivePoint (mouseX st) (mouseY st) st) = Some a"
  shows "\<exists>st' e1 e2. click st = Done st' \<and> activePoint st' = Some a \<and>
           pt_x (val st' ! a) = fst (clipped st (mouseX st) (mouseY st)) \<and>
           pt_y (val st' ! a) = snd (clipped st (mouseX st) (mouseY st)) \<and>
           cx (sourceElements st' ! a) = pt_x (val st' ! a) \<and>
           cy (sourceElements st' ! a) = pt_y (val st' ! a) \<and>
           emitted st' = emitted st @ [e1, e2] \<and>
           ((mouseX st - circleCenterX st) * (mouseX st - circleCenterX st)
              + (mouseY st - circleCenterY st) * (mouseY st - circleCenterY st)
              \<le> bgRadius st * bgRadius st \<longrightarrow>
            pt_x (val st' ! a) = mouseX st \<and> pt_y (val st' ! a) = mouseY st \<and>
            cx (sourceElements st' ! a) = mouseX st \<and> cy (sourceElements st' ! a) = mouseY st)"
proof -
  from click_hit [OF assms] obtain st' e1 e2 where
    r: "click st = Done st'" "activePoint st' = Some a"
       "pt_x (val st' ! a) = fst (clipped st (mouseX st) (mouseY st))"
       "pt_y (val st' ! a) = snd (clipped st (mouseX st) (mouseY st))"
       "cx (sourceElements st' ! a) = pt_x (val st' ! a)"
       "cy (sourceElements st' ! a) = pt_y (val st' ! a)"
       "emitted st' = emitted st @ [e1, e2]"
    by blast
  have "pt_x (val st' ! a) = mouseX st \<and> pt_y (val st' ! a) = mouseY st \<and>
        cx (sourceElements st' ! a) = mouseX st \<and> cy (sourceElements st' ! a) = mouseY st"
    if "(mouseX st - circleCenterX st) * (mouseX st - circleCenterX st)
              + (mouseY st - circleCenterY st) * (mouseY st - circleCenterY st)
              \<le> bgRadius st * bgRadius st"
    using clipped_inside [OF that] r(3-6) by simp
  then show ?thesis using r by blast
qed

theorem click_on_existing_point_witness:
  "clickable insideClick \<and> clicked insideClick \<and> lockstep insideClick \<and>
   activePoint (setActivePoint (mouseX insideClick) (mouseY insideClick) insideClick) = Some 0 \<and>
   isDone (click insideClick) \<and>
   pt_x (val (stateOf (click insideClick)) ! 0) = 640 \<and>
   pt_y (val (stateOf (click insideClick)) ! 0) = 350 \<and>
   cx (sourceElements (stateOf (click insideClick)) ! 0) = 640 \<and>
   length (emitted (stateOf (click insideClick))) = 2"
proof -
  from click_on_existing_point [OF insideClick_facts(1,2,3,6)] obtain st' e1 e2 where
    r: "click insideClick = Done st'" "emitted st' = emitted insideClick @ [e1, e2]"
    and i: "(mouseX insideClick - circleCenterX insideClick) * (mouseX insideClick - circleCenterX insideClick)
              + (mouseY insideClick - circleCenterY insideClick) * (mouseY insideClick - circleCenterY insideClick)
              \<le> bgRadius insideClick * bgRadius insideClick \<longrightarrow>
            pt_x (val st' ! 0) = mouseX insideClick \<and> pt_y (val st' ! 0) = mouseY insideClick \<and>
            cx (sourceElements st' ! 0) = mouseX insideClick \<and> cy (sourceElements st' ! 0) = mouseY insideClick"
    by blast
  have "pt_x (val st' ! 0) = 640 \<and> pt_y (val st' ! 0) = 350 \<and> cx (sourceElements st' ! 0) = 640"
    using i by (simp add: insideClick_facts)
  then show ?thesis using r insideClick_facts by simp
qed

text \<open>
  C10 as stated fails when the pointer is in the box of a point but outside the boundary
  circle: for a point on the circle at (650, 350) and the pointer at (670, 350), the
  stored coordinates and the marker centre stay at 650, not at the pointer.
\<close>

theorem click_outside_boundary_counterexample:
  "clickable edgeClick \<and> clicked edgeClick \<and>
   activePoint (setActivePoint (mouseX edgeClick) (mouseY edgeClick) edgeClick) = Some 0 \<and>
   mouseX edgeClick = 670 \<and> isDone (click edgeClick) \<and>
   pt_x (val (stateOf (click edgeClick)) ! 0) = 650 \<and>
   cx (sourceElements (stateOf (click edgeClick)) ! 0) = 650 \<and>
   pt_x (val (stateOf (click edgeClick)) ! 0) \<noteq> mouseX edgeClick"
proof -
  from click_hit [OF edgeClick_facts(1,2,3,6)] obtain st' where
    r: "click edgeClick = Done st'"
       "pt_x (val st' ! 0) = fst (clipped edgeClick (mouseX edgeClick) (mouseY edgeClick))"
       "cx (sourceElements st' ! 0) = pt_x (val st' ! 0)"
    by blast
  then show ?thesis using edgeClick_facts by simp
qed

subsection \<open>From polar coordinates to the panel and back\<close>














subsection \<open>Moving a point that is not the active one\<close>

lemma pixelDistance_horizontal:
  "pt_y p = circleCenterY st \<Longrightarrow> pixelDistance st p = \<bar>pt_x p - circleCenterX st\<bar>"
  by (simp add: pixelDistance_def)

lemma twoSources_eval:
  "twoSources = (PanBinaural 700 700)
     \<lparr>val := [\<lparr> pt_x = 450, pt_y = 350, label = ''S1'', colorIndex = 0 \<rparr>,
              \<lparr> pt_x = 550, pt_y = 350, label = ''S2'', colorIndex = 0 \<rparr>],
      activePoint := Some 1,
      children := [0, 1, 2, 3, 4, 5],
      nextId := 6,
      sourceElements := [\<lparr> c_id = 2, cx = 450, cy = 350, c_r = 30, fill_opacity = ''0.5'',
                            fill = Some ''#845ec2'', stroke = ''none'' \<rparr>,
                         \<lparr> c_id = 4, cx = 550, cy = 350, c_r = 30, fill_opacity = ''0.5'',
                            fill = Some ''#845ec2'', stroke = ''#000'' \<rparr>],
      labelElements := [\<lparr> t_id = 3, t_x = 450, t_y = 400, t_fill = ''black'',
                           text_anchor = ''middle'', textContent = ''S1'' \<rparr>,
                        \<lparr> t_id = 5, t_x = 550, t_y = 400, t_fill = ''black'',
                           text_anchor = ''middle'', textContent = ''S2'' \<rparr>]\<rparr>"
  by (simp add: twoSources_def addNewPoint_def generateNewPoint_Done drawEmphasisCircle_def
      andThen_def panelCoordinates_def polToCar_def convertToPixels_def clipped_def colorAt_def
      PanBinaural_def Let_def)

text \<open>
  C2. The claim that no point of the collection is ever farther than \<open>bgRadius\<close> from the
  panel centre does not hold of \<open>moveExistingPoint\<close>, which clamps the active point and
  not the point it has moved: with two sources, the second one active,
  \<open>moveExistingPoint(0, 10, 90)\<close> returns normally and leaves point 0 at (1350, 350),
  1000 pixels from the centre of a panel whose boundary radius is 300.
\<close>

theorem moveExistingPoint_leaves_boundary:
  "activePoint twoSources = Some 1 \<and>
   isDone (moveExistingPoint 0 10 90 twoSources) \<and>
   pt_x (val (stateOf (moveExistingPoint 0 10 90 twoSources)) ! 0) = 1350 \<and>
   pt_y (val (stateOf (moveExistingPoint 0 10 90 twoSources)) ! 0) = 350 \<and>
   bgRadius (stateOf (moveExistingPoint 0 10 90 twoSources)) = 300 \<and>
   pixelDistance (stateOf (moveExistingPoint 0 10 90 twoSources))
     (val (stateOf (moveExistingPoint 0 10 90 twoSources)) ! 0) = 1000"
  by (simp add: twoSources_eval moveExistingPoint_def scaleNode_def
      panelCoordinates_def polToCar_def convertToPixels_def clipped_def
      PanBinaural_def Let_def pixelDistance_horizontal)

end
